theory Spec2Isabelle
  imports Complex_Main "HOL-Library.Word"
begin

section \<open>The avatar backend (backend/server.js)\<close>

text \<open>
  The backend is an Express application with two routes, \<^verbatim>\<open>POST /api/chat\<close> and
  \<^verbatim>\<open>GET /api/audio/:filename\<close>, a start-up section that reads the process environment,
  and two helpers, \<^verbatim>\<open>buildSSML\<close> and \<^verbatim>\<open>textToSpeech\<close>.

  The model is a shallow embedding. Each handler is a function from the request and the
  state it can touch (the files of the server directory) to the HTTP response, the new
  state and the list of calls it made on its collaborators, in the order the code makes
  them. The collaborators themselves (the language model, \<^verbatim>\<open>JSON.parse\<close>, the speech
  synthesizer, \<^verbatim>\<open>uuidv4\<close>, \<^verbatim>\<open>path.join\<close>, the client constructor) are
  parameters: nothing is assumed about what they return. Console output is not part of
  the state. The chat handler is one such function. The audio route works through
  callbacks of the file system, between which other requests are served: it is a step
  function on the state of the server. The rate limiter in front of the chat route is a
  library and is not modelled, so \<open>chat_post\<close> is what happens to a request that the
  limiter lets through.
\<close>

subsection \<open>JavaScript values\<close>

text \<open>
  A number is a double: not-a-number, the two infinities, or a finite value, kept as the
  rational it denotes (both zeros are \<open>Finite 0\<close>).
\<close>

datatype js_number = NaN | PosInfinity | NegInfinity | Finite rat

datatype js_value =
    JUndefined
  | JNull
  | JBool bool
  | JNumber js_number
  | JString string
  | JArray "js_value list"
  | JObject "(string \<times> js_value) list"

datatype js_error = Error string

text \<open>\<^verbatim>\<open>ToBoolean\<close>, which \<^verbatim>\<open>!message\<close> and \<^verbatim>\<open>!AZURE_SPEECH_KEY\<close> apply to their operand.\<close>

fun truthy :: "js_value \<Rightarrow> bool" where
  "truthy JUndefined = False"
| "truthy JNull = False"
| "truthy (JBool b) = b"
| "truthy (JNumber NaN) = False"
| "truthy (JNumber PosInfinity) = True"
| "truthy (JNumber NegInfinity) = True"
| "truthy (JNumber (Finite q)) = (q \<noteq> 0)"
| "truthy (JString s) = (s \<noteq> [])"
| "truthy (JArray xs) = True"
| "truthy (JObject kvs) = True"

subsection \<open>Start-up: reading the environment\<close>

text \<open>
  \<^verbatim>\<open>process.env.X\<close> is a string or \<^verbatim>\<open>undefined\<close>.
\<close>

type_synonym process_env = "string \<rightharpoonup> string"

fun env_value :: "string option \<Rightarrow> js_value" where
  "env_value None = JUndefined"
| "env_value (Some s) = JString s"

fun env_string :: "string option \<Rightarrow> string" where
  "env_string None = []"
| "env_string (Some s) = s"

record 'client config =
  openai :: 'client
  AZURE_SPEECH_KEY :: string
  AZURE_SPEECH_REGION :: string
  AZURE_VOICE_NAME :: string

text \<open>
  \<^verbatim>\<open>
  const openai = new OpenAI({ apiKey: process.env.OPENAI_API_KEY });
  const AZURE_SPEECH_KEY = process.env.AZURE_SPEECH_KEY;
  const AZURE_SPEECH_REGION = process.env.AZURE_SPEECH_REGION;
  const AZURE_VOICE_NAME = process.env.AZURE_VOICE_NAME;
  if (!AZURE_SPEECH_KEY || !AZURE_SPEECH_REGION || !AZURE_VOICE_NAME) {
    throw new Error('Azure Speech service environment variables are not defined.');
  }
  \<close>
  The constructor of the client belongs to the \<^verbatim>\<open>openai\<close> package; it is the parameter
  \<open>new_OpenAI\<close>, given the value of \<^verbatim>\<open>apiKey\<close>, and may throw. \<open>Inl\<close> is the error
  that stops the module from loading, \<open>Inr\<close> the constants the rest of the module uses.
  The statements take \<open>startup\<close> with \<open>OpenAI_constructor\<close> below for \<open>new_OpenAI\<close>.
\<close>

definition startup ::
  "(string option \<Rightarrow> js_error + 'client) \<Rightarrow> process_env \<Rightarrow> js_error + 'client config" where
  "startup new_OpenAI env =
     (case new_OpenAI (env ''OPENAI_API_KEY'') of
        Inl e \<Rightarrow> Inl e
      | Inr client \<Rightarrow>
          (if \<not> truthy (env_value (env ''AZURE_SPEECH_KEY''))
              \<or> \<not> truthy (env_value (env ''AZURE_SPEECH_REGION''))
              \<or> \<not> truthy (env_value (env ''AZURE_VOICE_NAME''))
           then Inl (Error ''Azure Speech service environment variables are not defined.'')
           else Inr \<lparr>openai = client,
                     AZURE_SPEECH_KEY = env_string (env ''AZURE_SPEECH_KEY''),
                     AZURE_SPEECH_REGION = env_string (env ''AZURE_SPEECH_REGION''),
                     AZURE_VOICE_NAME = env_string (env ''AZURE_VOICE_NAME'')\<rparr>))"

text \<open>
  The constructor of the \<^verbatim>\<open>openai\<close> package, as far as start-up depends on it: it
  throws when the \<^verbatim>\<open>apiKey\<close> it is given is \<^verbatim>\<open>undefined\<close>, and keeps any string,
  the empty one too (the error text is shortened).
\<close>

record client =
  apiKey :: string

definition OpenAI_constructor :: "string option \<Rightarrow> js_error + client" where
  "OpenAI_constructor key =
     (case key of
        None \<Rightarrow> Inl (Error ''The OPENAI_API_KEY environment variable is missing or empty'')
      | Some k \<Rightarrow> Inr \<lparr>apiKey = k\<rparr>)"

definition azure_only_env :: process_env where
  "azure_only_env =
     [''AZURE_SPEECH_KEY'' \<mapsto> ''k1'', ''AZURE_SPEECH_REGION'' \<mapsto> ''westeurope'',
      ''AZURE_VOICE_NAME'' \<mapsto> ''en-US-JennyNeural'']"

subsection \<open>The markup builder\<close>

definition newline :: string where
  "newline = [CHR 0x0A]"

text \<open>The three kinds of element the template is made of.\<close>

definition viseme_marker :: "string \<Rightarrow> string" where
  \<open>viseme_marker ty = ''<mstts:viseme type="'' @ ty @ ''"/>''\<close>

definition express_as_open :: "string \<Rightarrow> string" where
  \<open>express_as_open style = ''<mstts:express-as style="'' @ style @ ''">''\<close>

definition voice_open :: "string \<Rightarrow> string" where
  \<open>voice_open name = ''<voice name="'' @ name @ ''">''\<close>

text \<open>
  \<^verbatim>\<open>buildSSML(message, style)\<close> is one template literal; \<open>voice\<close> is the module
  constant \<^verbatim>\<open>AZURE_VOICE_NAME\<close>. The definition is the literal, line by line.
\<close>

definition buildSSML :: "string \<Rightarrow> string \<Rightarrow> string \<Rightarrow> string" where
  \<open>buildSSML voice message style =
     ''<speak version="1.0"'' @ newline @
     ''  xmlns="http://www.w3.org/2001/10/synthesis"'' @ newline @
     ''  xmlns:mstts="https://www.w3.org/2001/mstts"'' @ newline @
     ''  xml:lang="en-US">'' @ newline @
     ''  <voice name="'' @ voice @ ''">'' @ newline @
     ''      <mstts:viseme type="redlips_front"/>'' @ newline @
     ''      <mstts:express-as style="'' @ style @ ''">'' @ newline @
     ''          '' @ message @ newline @
     ''      </mstts:express-as>'' @ newline @
     ''      <mstts:viseme type="sil"/>'' @ newline @
     ''      <mstts:viseme type="sil"/>'' @ newline @
     ''  </voice>'' @ newline @
     ''  </speak>''\<close>

definition whitespace :: "string \<Rightarrow> bool" where
  "whitespace s = list_all (\<lambda>c. c = CHR '' '' \<or> c = CHR 0x0A) s"

subsection \<open>The speech synthesizer\<close>

type_synonym bytes = "8 word list"

text \<open>
  What the SDK hands to the callbacks of a synthesizer. \<open>viseme_args\<close> is the event
  argument of \<^verbatim>\<open>visemeReceived\<close>; its \<^verbatim>\<open>audioOffset\<close> is a tick count. A call of
  \<^verbatim>\<open>speakSsmlAsync\<close> ends in one of its two callbacks: the result callback, with the
  \<^verbatim>\<open>reason\<close> and the \<^verbatim>\<open>audioData\<close> of the result, or the error callback.
\<close>

record viseme_args =
  audioOffset :: int
  visemeId :: int

datatype result_reason = SynthesizingAudioCompleted | OtherReason nat

datatype speak_callback = OnResult result_reason bytes | OnError js_error

record synthesis =
  viseme_events :: "viseme_args list"
  completion :: speak_callback

text \<open>The objects pushed on \<^verbatim>\<open>visemes\<close>: \<^verbatim>\<open>{ offset, id }\<close>.\<close>

record viseme =
  offset :: rat
  viseme_id :: int

text \<open>Everything a handler does to the outside, in order.\<close>

datatype effect =
    LlmRequest js_value
  | SynthesizerCreated
  | SpeakSsml string
  | SynthesizerClosed
  | PromiseResolved
  | PromiseRejected
  | FileWritten string

text \<open>
  \<^verbatim>\<open>
  synthesizer.visemeReceived = (s, e) => {
    visemes.push({ offset: e.audioOffset / 10000, id: e.visemeId });
  };
  \<close>
  \<^verbatim>\<open>/\<close> is the division of numbers, not a division of integers. Numbers are
  rationals here, so the quotient is the exact one; the double the program computes is
  the representable value nearest to it (5000 / 10000 is one half in both).
\<close>

definition visemeReceived :: "viseme list \<Rightarrow> viseme_args \<Rightarrow> viseme list" where
  "visemeReceived visemes e =
     visemes @ [\<lparr>offset = of_int (audioOffset e) / 10000, viseme_id = visemeId e\<rparr>]"

text \<open>
  \<^verbatim>\<open>textToSpeech(message, style)\<close>. The parameter \<open>speakSsmlAsync\<close> is the speech
  service: what it does with a markup document. The result is the list of effects, and
  \<open>Inr\<close> of what the promise resolves with or \<open>Inl\<close> of what it rejects with.
\<close>

definition textToSpeech ::
  "string \<Rightarrow> (string \<Rightarrow> synthesis) \<Rightarrow> string \<Rightarrow> string
     \<Rightarrow> effect list \<times> (js_error + bytes \<times> viseme list)" where
  "textToSpeech voice speakSsmlAsync message style =
     (let ssml = buildSSML voice message style;
          session = speakSsmlAsync ssml;
          visemes = foldl visemeReceived [] (viseme_events session)
      in case completion session of
           OnResult reason audioData \<Rightarrow>
             (if reason = SynthesizingAudioCompleted
              then ([SynthesizerCreated, SpeakSsml ssml, SynthesizerClosed, PromiseResolved],
                    Inr (audioData, visemes))
              else ([SynthesizerCreated, SpeakSsml ssml, SynthesizerClosed, PromiseRejected],
                    Inl (Error ''Speech synthesis failed.'')))
         | OnError error \<Rightarrow>
             ([SynthesizerCreated, SpeakSsml ssml, SynthesizerClosed, PromiseRejected],
              Inl error))"

subsection \<open>Files and HTTP responses\<close>

text \<open>
  The files of the server directory: a map from paths to contents. An operation of
  the file system can fail for a reason of its own (permissions, the device): \<open>fault\<close>
  is that error when there is one. Without a fault, \<^verbatim>\<open>access\<close>, a read and
  \<^verbatim>\<open>unlink\<close> fail on a path that is not there and succeed on one that is.
\<close>

type_synonym files = "string \<rightharpoonup> bytes"

definition access :: "js_error option \<Rightarrow> files \<Rightarrow> string \<Rightarrow> js_error option" where
  "access fault fs filePath =
     (case fault of
        Some err \<Rightarrow> Some err
      | None \<Rightarrow> (case fs filePath of None \<Rightarrow> Some (Error ''ENOENT'') | Some b \<Rightarrow> None))"

definition read_all :: "js_error option \<Rightarrow> files \<Rightarrow> string \<Rightarrow> js_error + bytes" where
  "read_all fault fs filePath =
     (case fault of
        Some err \<Rightarrow> Inl err
      | None \<Rightarrow> (case fs filePath of None \<Rightarrow> Inl (Error ''ENOENT'') | Some b \<Rightarrow> Inr b))"

definition unlink :: "js_error option \<Rightarrow> files \<Rightarrow> string \<Rightarrow> js_error + files" where
  "unlink fault fs filePath =
     (case fault of
        Some err \<Rightarrow> Inl err
      | None \<Rightarrow>
          (case fs filePath of
             None \<Rightarrow> Inl (Error ''ENOENT'')
           | Some b \<Rightarrow> Inr (fs(filePath := None))))"

record chat_response =
  response :: string
  style_tag :: string
  reasoning :: string
  audio :: string
  visemes_out :: "viseme list"

datatype payload =
    JsonError string
  | JsonChat chat_response
  | Stream bytes
  | ErrorPage

record http_response =
  status :: nat
  headers :: "(string \<times> string) list"
  payload :: payload

definition message_required :: http_response where
  "message_required = \<lparr>status = 400, headers = [], payload = JsonError ''Message is required.''\<rparr>"

definition processing_error :: http_response where
  "processing_error =
     \<lparr>status = 500, headers = [],
      payload = JsonError ''An error occurred while processing your request.''\<rparr>"

definition audio_not_found :: http_response where
  "audio_not_found = \<lparr>status = 404, headers = [], payload = JsonError ''Audio file not found.''\<rparr>"

subsection \<open>The chat route\<close>

text \<open>
  The parsed reply of the language model, with the three fields the handler reads.
\<close>

record styled_reply =
  reply_message :: string
  reply_style :: string
  reply_reasoning :: string

text \<open>
  The collaborators of one chat request: \<open>completions_create\<close> is
  \<^verbatim>\<open>openai.chat.completions.create\<close> followed by \<^verbatim>\<open>.choices[0].message.content\<close>,
  given the \<^verbatim>\<open>content\<close> of the user message; \<open>JSON_parse\<close> is \<^verbatim>\<open>JSON.parse\<close>
  followed by the reads of the three fields; both may throw. \<open>uuidv4\<close> is the
  identifier drawn for this request.
\<close>

record collaborators =
  completions_create :: "js_value \<Rightarrow> js_error + string"
  JSON_parse :: "string \<Rightarrow> js_error + styled_reply"
  speakSsmlAsync :: "string \<Rightarrow> synthesis"
  uuidv4 :: string

text \<open>
  \<^verbatim>\<open>let { message } = req.body;\<close> on the object that \<^verbatim>\<open>express.json()\<close> parsed. The
  list holds the properties of the object, each key once; a missing property reads as
  \<^verbatim>\<open>undefined\<close>.
\<close>

definition destructure_message :: "(string \<times> js_value) list \<Rightarrow> js_value" where
  "destructure_message req_body =
     (case map_of req_body ''message'' of None \<Rightarrow> JUndefined | Some v \<Rightarrow> v)"

text \<open>
  The handler of \<^verbatim>\<open>POST /api/chat\<close>. \<open>voice\<close> is \<^verbatim>\<open>AZURE_VOICE_NAME\<close>,
  \<open>path_join\<close> is \<^verbatim>\<open>path.join(__dirname, _)\<close>. Every exception raised inside the
  \<^verbatim>\<open>try\<close> block ends in the \<^verbatim>\<open>catch\<close>, which answers 500.
\<close>

definition chat_post ::
  "string \<Rightarrow> (string \<Rightarrow> string) \<Rightarrow> collaborators \<Rightarrow> files \<Rightarrow> (string \<times> js_value) list
     \<Rightarrow> http_response \<times> effect list \<times> files" where
  "chat_post voice path_join c fs req_body =
     (let message = destructure_message req_body in
      if \<not> truthy message then (message_required, [], fs)
      else
        case completions_create c message of
          Inl error \<Rightarrow> (processing_error, [LlmRequest message], fs)
        | Inr content \<Rightarrow>
           (case JSON_parse c content of
              Inl error \<Rightarrow> (processing_error, [LlmRequest message], fs)
            | Inr parsedResponse \<Rightarrow>
               (case textToSpeech voice (speakSsmlAsync c)
                       (reply_message parsedResponse) (reply_style parsedResponse) of
                  (effects, Inl error) \<Rightarrow>
                    (processing_error, LlmRequest message # effects, fs)
                | (effects, Inr (audioBuffer, visemes)) \<Rightarrow>
                    (let uniqueFilename = ''response_'' @ uuidv4 c @ ''.mp3'';
                         filePath = path_join uniqueFilename
                     in (\<lparr>status = 200, headers = [],
                          payload = JsonChat
                            \<lparr>response = reply_message parsedResponse,
                             style_tag = reply_style parsedResponse,
                             reasoning = reply_reasoning parsedResponse,
                             audio = uniqueFilename,
                             visemes_out = visemes\<rparr>\<rparr>,
                         LlmRequest message # effects @ [FileWritten filePath],
                         fs(filePath \<mapsto> audioBuffer))))))"

subsection \<open>The audio route\<close>

text \<open>
  \<^verbatim>\<open>
  app.get('/api/audio/:filename', (req, res) => {
    const { filename } = req.params;
    const filePath = path.join(__dirname, filename);
    fs.access(filePath, fs.constants.F_OK, (err) => {
      if (err) {
        return res.status(404).json({ error: 'Audio file not found.' });
      }
      res.set({
        'Content-Type': 'audio/mpeg',
        'Content-Disposition': `attachment; filename=${filename}`,
      });
      const readStream = fs.createReadStream(filePath);
      readStream.pipe(res);
      res.on('finish', () => {
        fs.unlink(filePath, (err) => {
          if (err) console.error('Error deleting audio file:', err);
        });
      });
    });
  });
  \<close>
  The route is three callbacks around three asynchronous operations of the file system,
  and other requests are served between them. The server is therefore a state with the
  operations that are under way, and each callback is a step.
\<close>

text \<open>
  An operation under way: the \<^verbatim>\<open>fs.access\<close> of request \<open>n\<close>, the read stream of
  request \<open>n\<close> piped into its response, or an \<^verbatim>\<open>fs.unlink\<close> of a path.
\<close>

datatype task = Access nat string | ReadStream nat string | Unlink string

text \<open>
  The server: its files, the operations under way, the responses completed so far with
  the number of their request, the number of requests that have arrived, and whether an
  uncaught exception has ended the process.
\<close>

record server =
  disk :: files
  pending :: "task list"
  answered :: "(nat \<times> http_response) list"
  arrivals :: nat
  crashed :: bool

text \<open>
  What Node accepts in the value of a header: the tab and the characters from
  \<^verbatim>\<open>0x20\<close> to \<^verbatim>\<open>0x7e\<close> and from \<^verbatim>\<open>0x80\<close> to \<^verbatim>\<open>0xff\<close>. \<^verbatim>\<open>setHeader\<close> throws
  on any other character. (A \<open>char\<close> is a code unit up to \<^verbatim>\<open>0xff\<close>.)
\<close>

definition header_char_ok :: "char \<Rightarrow> bool" where
  "header_char_ok c =
     (c = CHR 0x09 \<or> (0x20 \<le> (of_char c :: nat) \<and> (of_char c :: nat) \<le> 0x7E)
      \<or> 0x80 \<le> (of_char c :: nat))"

definition header_value_ok :: "string \<Rightarrow> bool" where
  "header_value_ok v = list_all header_char_ok v"

text \<open>
  What Express answers when a handler throws while it runs: 500, with a page of its own.
\<close>

definition express_error :: http_response where
  "express_error = \<lparr>status = 500, headers = [], payload = ErrorPage\<rparr>"

text \<open>
  The handler itself: it starts \<^verbatim>\<open>fs.access\<close> and returns. \<^verbatim>\<open>fs.access\<close> throws at
  once on a path with a NUL character, which Express answers.
\<close>

definition audio_get :: "(string \<Rightarrow> string) \<Rightarrow> string \<Rightarrow> server \<Rightarrow> server" where
  "audio_get path_join filename s =
     (let filePath = path_join filename; n = arrivals s in
      if CHR 0x00 \<in> set filePath
      then s\<lparr>answered := answered s @ [(n, express_error)], arrivals := Suc n\<rparr>
      else s\<lparr>pending := pending s @ [Access n filename], arrivals := Suc n\<rparr>)"

text \<open>
  The callback of \<^verbatim>\<open>fs.access\<close>. On an error it answers 404. Otherwise it sets the
  two headers, where an illegal value throws inside the callback, which nothing catches:
  the process ends. Otherwise it creates the read stream and pipes it into the response.
\<close>

definition access_done ::
  "(string \<Rightarrow> string) \<Rightarrow> nat \<Rightarrow> string \<Rightarrow> js_error option \<Rightarrow> server \<Rightarrow> server" where
  "access_done path_join n filename fault s =
     (let filePath = path_join filename in
      case access fault (disk s) filePath of
        Some err \<Rightarrow> s\<lparr>answered := answered s @ [(n, audio_not_found)]\<rparr>
      | None \<Rightarrow>
          (if \<not> header_value_ok (''attachment; filename='' @ filename)
           then s\<lparr>crashed := True\<rparr>
           else s\<lparr>pending := pending s @ [ReadStream n filename]\<rparr>))"

text \<open>
  The read stream. When it cannot read the file it emits \<^verbatim>\<open>error\<close>, for which there is
  no listener: the process ends. When it has read the file, the response, 200 with the
  two headers and the contents, is complete; \<^verbatim>\<open>finish\<close> fires and its listener starts
  \<^verbatim>\<open>fs.unlink\<close>.
\<close>

definition stream_done ::
  "(string \<Rightarrow> string) \<Rightarrow> nat \<Rightarrow> string \<Rightarrow> js_error option \<Rightarrow> server \<Rightarrow> server" where
  "stream_done path_join n filename fault s =
     (let filePath = path_join filename in
      case read_all fault (disk s) filePath of
        Inl err \<Rightarrow> s\<lparr>crashed := True\<rparr>
      | Inr contents \<Rightarrow>
          s\<lparr>answered := answered s @
               [(n, \<lparr>status = 200,
                     headers = [(''Content-Type'', ''audio/mpeg''),
                                (''Content-Disposition'', ''attachment; filename='' @ filename)],
                     payload = Stream contents\<rparr>)],
            pending := pending s @ [Unlink filePath]\<rparr>)"

text \<open>The callback of \<^verbatim>\<open>fs.unlink\<close>: an error is logged, and the file stays.\<close>

definition unlink_done :: "string \<Rightarrow> js_error option \<Rightarrow> server \<Rightarrow> server" where
  "unlink_done filePath fault s =
     (case unlink fault (disk s) filePath of
        Inl err \<Rightarrow> s
      | Inr fs' \<Rightarrow> s\<lparr>disk := fs'\<rparr>)"

text \<open>
  What happens next at the server: a request for a name arrives, or the operation at
  position \<open>i\<close> of those under way completes, with the fault of the file system if there
  is one. A process that has ended does nothing more.
\<close>

datatype event = Request string | Complete nat "js_error option"

definition step :: "(string \<Rightarrow> string) \<Rightarrow> server \<Rightarrow> event \<Rightarrow> server" where
  "step path_join s ev =
     (if crashed s then s
      else
        case ev of
          Request filename \<Rightarrow> audio_get path_join filename s
        | Complete i fault \<Rightarrow>
            (if i < length (pending s)
             then
               (let s' = s\<lparr>pending := take i (pending s) @ drop (Suc i) (pending s)\<rparr> in
                case pending s ! i of
                  Access n filename \<Rightarrow> access_done path_join n filename fault s'
                | ReadStream n filename \<Rightarrow> stream_done path_join n filename fault s'
                | Unlink filePath \<Rightarrow> unlink_done filePath fault s')
             else s))"

definition run :: "(string \<Rightarrow> string) \<Rightarrow> server \<Rightarrow> event list \<Rightarrow> server" where
  "run path_join s evs = foldl (step path_join) s evs"

subsection \<open>Concrete collaborators\<close>

text \<open>
  A fixed set of collaborators for running the handlers on concrete requests: a language
  model that always answers with the same document, a parser that reads it, and a speech
  service that reports two visemes and then completes with three bytes of audio.
\<close>

definition server_dir :: "string \<Rightarrow> string" where
  "server_dir filename = ''/srv/backend/'' @ filename"

definition canned_reply :: styled_reply where
  "canned_reply = \<lparr>reply_message = ''Hi!'', reply_style = ''friendly'', reply_reasoning = ''greeting''\<rparr>"

definition completing_speech :: "string \<Rightarrow> synthesis" where
  "completing_speech ssml =
     \<lparr>viseme_events = [\<lparr>audioOffset = 5000, visemeId = 0\<rparr>, \<lparr>audioOffset = 1250000, visemeId = 19\<rparr>],
      completion = OnResult SynthesizingAudioCompleted [73, 68, 51]\<rparr>"

definition canceled_speech :: "string \<Rightarrow> synthesis" where
  "canceled_speech ssml =
     \<lparr>viseme_events = [\<lparr>audioOffset = 5000, visemeId = 0\<rparr>],
      completion = OnResult (OtherReason 1) []\<rparr>"

definition canned :: "(string \<Rightarrow> synthesis) \<Rightarrow> collaborators" where
  "canned speech =
     \<lparr>completions_create = (\<lambda>content. Inr ''{}''),
      JSON_parse = (\<lambda>text. Inr canned_reply),
      speakSsmlAsync = speech,
      uuidv4 = ''0000''\<rparr>"

definition no_files :: files where
  "no_files = Map.empty"

text \<open>A server that has just started on the given files.\<close>

definition serving :: "files \<Rightarrow> server" where
  "serving fs = \<lparr>disk = fs, pending = [], answered = [], arrivals = 0, crashed = False\<rparr>"

text \<open>A name with a line feed in it, as \<^verbatim>\<open>/api/audio/a%0A\<close> is decoded.\<close>

definition control_name :: string where
  "control_name = [CHR ''a'', CHR 0x0A]"


definition audio_200 :: "string \<Rightarrow> bytes \<Rightarrow> http_response" where
  "audio_200 filename contents =
     \<lparr>status = 200,
      headers = [(''Content-Type'', ''audio/mpeg''),
                 (''Content-Disposition'', ''attachment; filename='' @ filename)],
      payload = Stream contents\<rparr>"

definition full_env :: process_env where
  "full_env = azure_only_env(''OPENAI_API_KEY'' \<mapsto> ''sk-1'')"

subsection \<open>Notions used in the statements\<close>

text \<open>A line break followed by \<open>n\<close> spaces: what separates the elements of the template.\<close>

definition sep :: "nat \<Rightarrow> string" where
  "sep n = newline @ replicate n (CHR '' '')"

text \<open>
  A trace leaks no session when every synthesizer it creates is closed, and is closed
  before the promise settles: \<open>n\<close> counts the sessions that are open.
\<close>

fun no_leak :: "nat \<Rightarrow> effect list \<Rightarrow> bool" where
  "no_leak n [] = (n = 0)"
| "no_leak n (SynthesizerCreated # es) = no_leak (Suc n) es"
| "no_leak n (SynthesizerClosed # es) = (0 < n \<and> no_leak (n - 1) es)"
| "no_leak n (PromiseResolved # es) = (n = 0 \<and> no_leak n es)"
| "no_leak n (PromiseRejected # es) = (n = 0 \<and> no_leak n es)"
| "no_leak n (e # es) = no_leak n es"

text \<open>The speech service failed: the error callback, or a result with another reason.\<close>

fun speech_failed :: "speak_callback \<Rightarrow> bool" where
  "speech_failed (OnError e) = True"
| "speech_failed (OnResult reason audioData) = (reason \<noteq> SynthesizingAudioCompleted)"

section \<open>Properties\<close>

subsection \<open>Helper facts\<close>

lemma foldl_visemeReceived:
  "foldl visemeReceived vs es =
     vs @ map (\<lambda>e. \<lparr>offset = of_int (audioOffset e) / 10000, viseme_id = visemeId e\<rparr>) es"
  by (induction es arbitrary: vs) (simp_all add: visemeReceived_def)

lemma quotient_integral: "(rat_of_int a / 10000 \<in> \<int>) = (10000 dvd a)"
  using of_int_div_of_int_in_Ints_iff [of a 10000, where ?'a = rat] by simp


lemma env_value_falsy: "(\<not> truthy (env_value x)) = (x = None \<or> x = Some [])"
  by (cases x) simp_all

lemma whitespace_sep: "whitespace (sep n)"
  by (simp add: whitespace_def sep_def newline_def list_all_iff)

lemma step_request:
  "\<not> crashed s \<Longrightarrow> CHR 0x00 \<notin> set (path_join f) \<Longrightarrow>
   step path_join s (Request f) =
     s\<lparr>pending := pending s @ [Access (arrivals s) f], arrivals := Suc (arrivals s)\<rparr>"
  by (simp add: step_def audio_get_def Let_def)

lemma step_last:
  "\<not> crashed s \<Longrightarrow> pending s = ts @ [t] \<Longrightarrow>
   step path_join s (Complete (length ts) fault) =
     (case t of
        Access n filename \<Rightarrow> access_done path_join n filename fault (s\<lparr>pending := ts\<rparr>)
      | ReadStream n filename \<Rightarrow> stream_done path_join n filename fault (s\<lparr>pending := ts\<rparr>)
      | Unlink filePath \<Rightarrow> unlink_done filePath fault (s\<lparr>pending := ts\<rparr>))"
  by (simp add: step_def Let_def)

subsection \<open>The chat route forwards the message as it came\<close>

text \<open>
  C1 (does not hold of the code). The claim: the message sent to the language model is
  the sanitized form of the request's message, never the raw text. The handler never
  calls \<^verbatim>\<open>sanitizeHtml\<close>: a message carrying a script element is the \<^verbatim>\<open>content\<close> of
  the request to the language model, character for character.
\<close>

theorem chat_post_forwards_raw_markup:
  "fst (snd (chat_post ''v'' server_dir (canned completing_speech) no_files
               [(''message'', JString ''<script>alert(1)</script>hi'')])) =
     [LlmRequest (JString ''<script>alert(1)</script>hi''),
      SynthesizerCreated, SpeakSsml (buildSSML ''v'' ''Hi!'' ''friendly''),
      SynthesizerClosed, PromiseResolved,
      FileWritten ''/srv/backend/response_0000.mp3'']"
  by (simp add: chat_post_def destructure_message_def canned_def canned_reply_def
        completing_speech_def textToSpeech_def server_dir_def Let_def)

subsection \<open>Validation of the message\<close>

text \<open>
  C2, as stated, fails: a message of one space is truthy, so the handler does not answer
  400; it sends the message to the language model and, with collaborators that succeed,
  answers 200.
\<close>

theorem whitespace_message_reaches_llm:
  "chat_post ''v'' server_dir (canned completing_speech) no_files [(''message'', JString '' '')] =
     (\<lparr>status = 200, headers = [],
       payload = JsonChat
         \<lparr>response = ''Hi!'', style_tag = ''friendly'', reasoning = ''greeting'',
          audio = ''response_0000.mp3'',
          visemes_out = [\<lparr>offset = 1 / 2, viseme_id = 0\<rparr>, \<lparr>offset = 125, viseme_id = 19\<rparr>]\<rparr>\<rparr>,
      [LlmRequest (JString '' ''), SynthesizerCreated,
       SpeakSsml (buildSSML ''v'' ''Hi!'' ''friendly''), SynthesizerClosed, PromiseResolved,
       FileWritten ''/srv/backend/response_0000.mp3''],
      no_files(''/srv/backend/response_0000.mp3'' \<mapsto> [73, 68, 51]))"
  by (simp add: chat_post_def destructure_message_def canned_def canned_reply_def
        completing_speech_def textToSpeech_def visemeReceived_def server_dir_def Let_def)

text \<open>
  C2, amended: for every chat request whose message is the empty string, the handler
  answers 400 with \<^verbatim>\<open>Message is required.\<close>, makes no call on any collaborator (the
  language model is never invoked) and leaves the files as they are.
\<close>

theorem empty_message_rejected:
  "destructure_message req_body = JString [] \<Longrightarrow>
     chat_post voice path_join c fs req_body = (message_required, [], fs)
     \<and> status message_required = 400"
  by (simp add: chat_post_def message_required_def)

theorem empty_message_rejected_witness:
  "chat_post ''v'' server_dir (canned completing_speech) no_files [(''message'', JString [])] =
     (message_required, [], no_files)
   \<and> status message_required = 400"
  using empty_message_rejected
    [of "[(''message'', JString [])]" "''v''" server_dir "canned completing_speech" no_files]
  by (simp add: destructure_message_def)



subsection \<open>Viseme offsets\<close>

text \<open>
  C3, as stated, fails: the offset is not an integer in general, and it is not the
  integer quotient. A notification at tick 5000 is collected with offset one half, where
  the integer quotient of 5000 by 10000 is zero.
\<close>

theorem viseme_offset_not_integer:
  "visemeReceived [] \<lparr>audioOffset = 5000, visemeId = 0\<rparr> = [\<lparr>offset = 1 / 2, viseme_id = 0\<rparr>]
   \<and> (1 / 2 :: rat) \<notin> \<int>
   \<and> (1 / 2 :: rat) \<noteq> of_int (5000 div 10000)"
  using fraction_not_in_Ints [of 2 1, where ?'a = rat] by (simp add: visemeReceived_def)

text \<open>
  C3, amended: the listener appends one event per notification, in the order of the
  notifications; the event has the identifier of the notification and, as offset, the
  raw offset divided by 10000 as a number, without truncation. For each notification on
  its own: when its raw offset is not negative the offset is not negative, and the
  offset is an integer exactly when the raw offset is a multiple of 10000.
\<close>

theorem viseme_offset_is_quotient:
  "list_all2
     (\<lambda>e v. viseme_id v = visemeId e \<and> offset v = of_int (audioOffset e) / 10000
           \<and> (0 \<le> audioOffset e \<longrightarrow> 0 \<le> offset v)
           \<and> (offset v \<in> \<int>) = (10000 dvd audioOffset e))
     es (foldl visemeReceived [] es)"
  by (simp add: foldl_visemeReceived list_all2_map2 list_all2_same quotient_integral)

theorem viseme_offset_is_quotient_witness:
  "list_all2
     (\<lambda>e v. viseme_id v = visemeId e \<and> offset v = of_int (audioOffset e) / 10000
           \<and> (0 \<le> audioOffset e \<longrightarrow> 0 \<le> offset v)
           \<and> (offset v \<in> \<int>) = (10000 dvd audioOffset e))
     [\<lparr>audioOffset = 5000, visemeId = 0\<rparr>, \<lparr>audioOffset = 1250000, visemeId = 19\<rparr>]
     (foldl visemeReceived []
        [\<lparr>audioOffset = 5000, visemeId = 0\<rparr>, \<lparr>audioOffset = 1250000, visemeId = 19\<rparr>])
   \<and> (0::int) \<le> 5000 \<and> (0::int) \<le> 1250000"
  using viseme_offset_is_quotient
    [of "[\<lparr>audioOffset = 5000, visemeId = 0\<rparr>, \<lparr>audioOffset = 1250000, visemeId = 19\<rparr>]"]
  by simp

subsection \<open>The synthesis session\<close>

text \<open>
  C6: whatever the speech service does with the markup (a result with the reason
  \<^verbatim>\<open>SynthesizingAudioCompleted\<close>, a result with another reason, or the error callback),
  \<^verbatim>\<open>textToSpeech\<close> creates one synthesizer, starts the synthesis, closes the
  synthesizer and only then settles its promise: it resolves when the result is \<open>Inr\<close>
  and rejects when it is \<open>Inl\<close>. No session is left open.
\<close>

theorem textToSpeech_closes_session:
  "fst (textToSpeech voice speak message style) =
     [SynthesizerCreated, SpeakSsml (buildSSML voice message style), SynthesizerClosed,
      (case snd (textToSpeech voice speak message style) of
         Inl e \<Rightarrow> PromiseRejected | Inr r \<Rightarrow> PromiseResolved)]
   \<and> no_leak 0 (fst (textToSpeech voice speak message style))
   \<and> (case completion (speak (buildSSML voice message style)) of
        OnResult reason audioData \<Rightarrow>
          isl (snd (textToSpeech voice speak message style)) =
            (reason \<noteq> SynthesizingAudioCompleted)
      | OnError error \<Rightarrow> snd (textToSpeech voice speak message style) = Inl error)"
  by (simp add: textToSpeech_def Let_def split: speak_callback.split)

subsection \<open>A failed synthesis\<close>

text \<open>
  C5: when the message is accepted, the language model has answered and its answer has
  been parsed, and the speech service then fails (the error callback, or a result whose
  reason is not \<^verbatim>\<open>SynthesizingAudioCompleted\<close>), the handler answers 500 with the
  fixed error text, which does not carry the reply; it writes no file, the files are the
  ones it found, and its only effects are the request to the language model and the
  synthesis session, closed before the promise is rejected.
\<close>

theorem speech_failure_leaves_no_trace:
  assumes "truthy (destructure_message req_body)"
    and "completions_create c (destructure_message req_body) = Inr content"
    and "JSON_parse c content = Inr reply"
    and "speech_failed (completion (speakSsmlAsync c
           (buildSSML voice (reply_message reply) (reply_style reply))))"
  shows "chat_post voice path_join c fs req_body =
           (processing_error,
            [LlmRequest (destructure_message req_body), SynthesizerCreated,
             SpeakSsml (buildSSML voice (reply_message reply) (reply_style reply)),
             SynthesizerClosed, PromiseRejected],
            fs)
         \<and> status processing_error = 500"
  using assms
  by (cases "completion (speakSsmlAsync c
               (buildSSML voice (reply_message reply) (reply_style reply)))")
     (simp_all add: chat_post_def textToSpeech_def Let_def processing_error_def)

theorem speech_failure_leaves_no_trace_witness:
  "chat_post ''v'' server_dir (canned canceled_speech) no_files [(''message'', JString ''hello'')] =
     (processing_error,
      [LlmRequest (JString ''hello''), SynthesizerCreated,
       SpeakSsml (buildSSML ''v'' ''Hi!'' ''friendly''),
       SynthesizerClosed, PromiseRejected],
      no_files)
   \<and> status processing_error = 500"
  using speech_failure_leaves_no_trace
    [of "[(''message'', JString ''hello'')]" "canned canceled_speech" "''{}''" canned_reply
        "''v''" server_dir no_files]
  by (simp add: destructure_message_def canned_def canned_reply_def canceled_speech_def)

subsection \<open>The markup document\<close>

text \<open>
  C7: for every voice name, reply text and style, \<^verbatim>\<open>buildSSML\<close> returns the document
  made of the opening \<^verbatim>\<open>speak\<close> tag with its four attributes, the voice element for
  the configured voice, and inside it, in this order: one \<^verbatim>\<open>redlips_front\<close> viseme
  marker, the \<^verbatim>\<open>express-as\<close> element of the style around the reply text as it is, and
  two \<^verbatim>\<open>sil\<close> viseme markers. The elements are separated by a line break and spaces
  only. The function is total and reads nothing but its arguments and the voice name.
\<close>

theorem buildSSML_structure:
  \<open>buildSSML voice message style =
     ''<speak version="1.0"'' @ sep 2 @
     ''xmlns="http://www.w3.org/2001/10/synthesis"'' @ sep 2 @
     ''xmlns:mstts="https://www.w3.org/2001/mstts"'' @ sep 2 @
     ''xml:lang="en-US">'' @ sep 2 @
     voice_open voice @ sep 6 @
       viseme_marker ''redlips_front'' @ sep 6 @
       express_as_open style @ sep 10 @ message @ sep 6 @ ''</mstts:express-as>'' @ sep 6 @
       viseme_marker ''sil'' @ sep 6 @
       viseme_marker ''sil'' @ sep 2 @
     ''</voice>'' @ sep 2 @
     ''</speak>''
   \<and> whitespace (sep 2) \<and> whitespace (sep 6) \<and> whitespace (sep 10)\<close>
  by (simp add: buildSSML_def sep_def voice_open_def viseme_marker_def express_as_open_def
        newline_def numeral_eq_Suc whitespace_def)

subsection \<open>The audio route\<close>




text \<open>
  C9, as stated, fails: not every name of a file that is there is served and removed.
  A name with a line feed is refused as a header value inside the callback of
  \<^verbatim>\<open>fs.access\<close>: no response is sent, the file stays and the process ends. And a file
  whose unlink fails is served and stays.
\<close>

theorem file_not_served_or_not_removed:
  "run server_dir (serving (no_files(server_dir control_name \<mapsto> [105, 109])))
     [Request control_name, Complete 0 None] =
     \<lparr>disk = no_files(server_dir control_name \<mapsto> [105, 109]), pending = [],
      answered = [], arrivals = 1, crashed = True\<rparr>
   \<and> run server_dir (serving (no_files(''/srv/backend/server.js'' \<mapsto> [105, 109])))
     [Request ''server.js'', Complete 0 None, Complete 0 None,
      Complete 0 (Some (Error ''EACCES''))] =
     \<lparr>disk = no_files(''/srv/backend/server.js'' \<mapsto> [105, 109]), pending = [],
      answered = [(0, audio_200 ''server.js'' [105, 109])],
      arrivals = 1, crashed = False\<rparr>"
  by (simp add: run_def step_def audio_get_def access_done_def stream_done_def unlink_done_def
        access_def read_all_def unlink_def audio_200_def serving_def control_name_def
        server_dir_def header_value_ok_def header_char_ok_def no_files_def Let_def)

text \<open>
  C9, amended: the route looks at nothing but the existence of the file at the joined
  path. For every name that is legal in a header and under which a file is there,
  whether or not the name has the form \<^verbatim>\<open>response_<uuid>.mp3\<close> and whoever wrote the
  file, when access and read succeed the response is 200 with the headers
  \<^verbatim>\<open>audio/mpeg\<close> and \<^verbatim>\<open>attachment\<close> and the contents of the file, and the unlink
  started at its end removes the file when it succeeds and leaves it when it fails.
\<close>

theorem audio_route_serves_any_file:
  assumes "\<not> crashed s"
    and "disk s (path_join filename) = Some contents"
    and "CHR 0x00 \<notin> set (path_join filename)"
    and "header_value_ok (''attachment; filename='' @ filename)"
  shows "run path_join s
           [Request filename, Complete (length (pending s)) None,
            Complete (length (pending s)) None, Complete (length (pending s)) fault] =
         s\<lparr>disk := (if fault = None then (disk s)(path_join filename := None) else disk s),
           answered := answered s @
             [(arrivals s,
               \<lparr>status = 200,
                headers = [(''Content-Type'', ''audio/mpeg''),
                           (''Content-Disposition'', ''attachment; filename='' @ filename)],
                payload = Stream contents\<rparr>)],
           arrivals := Suc (arrivals s)\<rparr>"
  using assms
  by (cases fault)
     (simp_all add: run_def step_request step_last access_done_def stream_done_def
        unlink_done_def access_def read_all_def unlink_def)

theorem audio_route_serves_any_file_witness:
  "run server_dir (serving (no_files(''/srv/backend/server.js'' \<mapsto> [105, 109])))
     [Request ''server.js'', Complete 0 None, Complete 0 None, Complete 0 None] =
     \<lparr>disk = no_files, pending = [],
      answered =
        [(0, \<lparr>status = 200,
               headers = [(''Content-Type'', ''audio/mpeg''),
                          (''Content-Disposition'', ''attachment; filename=server.js'')],
               payload = Stream [105, 109]\<rparr>)],
      arrivals = 1, crashed = False\<rparr>"
  using audio_route_serves_any_file
    [of "serving (no_files(''/srv/backend/server.js'' \<mapsto> [105, 109]))" server_dir
        "''server.js''" "[105, 109]" None]
  by (simp add: serving_def server_dir_def header_value_ok_def header_char_ok_def no_files_def)

subsection \<open>Start-up\<close>

text \<open>
  C8: each of the four values is validated while the module loads, and the process does
  not start when one of them is absent. The credential of the language model is
  validated by the client constructor, which throws on an absent key; the three speech
  values are validated by the test that follows, which refuses an empty value as well.
  Start-up fails in these cases and in no other.
\<close>

theorem startup_requires_each_value:
  "((\<exists>k \<in> {''OPENAI_API_KEY'', ''AZURE_SPEECH_KEY'', ''AZURE_SPEECH_REGION'',
             ''AZURE_VOICE_NAME''}. env k = None)
      \<longrightarrow> isl (startup OpenAI_constructor env))
   \<and> isl (startup OpenAI_constructor env) =
       (env ''OPENAI_API_KEY'' = None
        \<or> (\<exists>k \<in> {''AZURE_SPEECH_KEY'', ''AZURE_SPEECH_REGION'', ''AZURE_VOICE_NAME''}.
              env k = None \<or> env k = Some []))"
  by (auto simp add: startup_def OpenAI_constructor_def env_value_falsy
        split: sum.split option.split)

theorem startup_requires_each_value_witness:
  "isl (startup OpenAI_constructor azure_only_env)
   \<and> isl (startup OpenAI_constructor (full_env(''AZURE_SPEECH_KEY'' := None)))
   \<and> isl (startup OpenAI_constructor (full_env(''AZURE_SPEECH_REGION'' := None)))
   \<and> isl (startup OpenAI_constructor (full_env(''AZURE_VOICE_NAME'' := None)))
   \<and> \<not> isl (startup OpenAI_constructor full_env)"
  using startup_requires_each_value [of azure_only_env]
    startup_requires_each_value [of "full_env(''AZURE_SPEECH_KEY'' := None)"]
    startup_requires_each_value [of "full_env(''AZURE_SPEECH_REGION'' := None)"]
    startup_requires_each_value [of "full_env(''AZURE_VOICE_NAME'' := None)"]
    startup_requires_each_value [of full_env]
  by (simp add: azure_only_env_def full_env_def)

end
